theory Spec2Isabelle
  imports Main "HOL-Library.Sublist"
begin

section \<open>The furniture search client\<close>

text \<open>
  The repository holds three revisions of one browser module:
  \<^verbatim>\<open>src/static/furniture.js\<close>, \<^verbatim>\<open>src/unnamed/part_000\<close> and \<^verbatim>\<open>src/unnamed/part_001\<close>.
  A definition without a suffix embeds \<^verbatim>\<open>src/static/furniture.js\<close>; the suffixes
  \<open>_part000\<close> and \<open>_part001\<close> mark the two other revisions.

  A JavaScript string is modelled as the list of its UTF-16 code units, for strings
  whose code units are all below 256, so a \<^typ>\<open>char\<close> is one code unit.
  Numbers are modelled as integers, within the range that JavaScript prints digit by
  digit. The functions of the platform that the module calls
  (string methods, the DOM, timers, \<^verbatim>\<open>fetch\<close>) are modelled by what the module can observe
  of them.
\<close>

subsection \<open>String functions of the platform\<close>

definition startsWith :: "string \<Rightarrow> string \<Rightarrow> bool" where
  "startsWith s p = (take (length p) s = p)"

text \<open>\<^verbatim>\<open>s.split(c)\<close> for a one-character separator: never an empty array.\<close>

fun split :: "char \<Rightarrow> string \<Rightarrow> string list" where
  "split c [] = [[]]"
| "split c (x # xs) =
     (if x = c then [] # split c xs
      else (case split c xs of [] \<Rightarrow> [[x]] | w # ws \<Rightarrow> (x # w) # ws))"

text \<open>\<^verbatim>\<open>a.pop()\<close>: the last element, \<^verbatim>\<open>undefined\<close> on an empty array.\<close>

definition pop :: "'a list \<Rightarrow> 'a option" where
  "pop xs = (if xs = [] then None else Some (last xs))"

text \<open>A string-or-undefined value placed in a template literal.\<close>

definition interpolate :: "string option \<Rightarrow> string" where
  "interpolate v = (case v of None \<Rightarrow> ''undefined'' | Some s \<Rightarrow> s)"

text \<open>\<^verbatim>\<open>v || d\<close> on a string-or-undefined value: the empty string is falsy.\<close>

definition or_else :: "string option \<Rightarrow> string \<Rightarrow> string" where
  "or_else v d = (case v of None \<Rightarrow> d | Some s \<Rightarrow> if s = [] then d else s)"

definition is_space :: "char \<Rightarrow> bool" where
  "is_space c = ((of_char c :: nat) \<in> {9, 10, 11, 12, 13, 32, 160})"

definition trim :: "string \<Rightarrow> string" where
  "trim s = rev (dropWhile is_space (rev (dropWhile is_space s)))"

definition lower_unit :: "char \<Rightarrow> char" where
  "lower_unit c =
     (let n = (of_char c :: nat)
      in if (65 \<le> n \<and> n \<le> 90) \<or> (192 \<le> n \<and> n \<le> 222 \<and> n \<noteq> 215)
         then char_of (n + 32) else c)"

definition toLowerCase :: "string \<Rightarrow> string" where
  "toLowerCase s = map lower_unit s"

definition hex_digit :: "nat \<Rightarrow> char" where
  "hex_digit n = ''0123456789ABCDEF'' ! (n mod 16)"

definition percent :: "nat \<Rightarrow> string" where
  "percent b = [CHR ''%'', hex_digit (b div 16), hex_digit b]"

definition unreserved :: "char \<Rightarrow> bool" where
  \<open>unreserved c =
     (c \<in> set ''ABCDEFGHIJKLMNOPQRSTUVWXYZabcdefghijklmnopqrstuvwxyz0123456789-_.!~*'()'')\<close>

text \<open>One code unit below 256 is percent-encoded through its UTF-8 bytes (one or two).\<close>

definition encode_unit :: "char \<Rightarrow> string" where
  "encode_unit c =
     (let n = (of_char c :: nat)
      in if unreserved c then [c]
         else if n < 128 then percent n
         else percent (192 + n div 64) @ percent (128 + n mod 64))"

definition encodeURIComponent :: "string \<Rightarrow> string" where
  "encodeURIComponent s = concat (map encode_unit s)"

fun show_nat :: "nat \<Rightarrow> string" where
  "show_nat n =
     (if n < 10 then [''0123456789'' ! n]
      else show_nat (n div 10) @ [''0123456789'' ! (n mod 10)])"

declare show_nat.simps [simp del]

definition show_int :: "int \<Rightarrow> string" where
  "show_int i = (if i < 0 then CHR ''-'' # show_nat (nat (- i)) else show_nat (nat i))"

text \<open>
  \<^verbatim>\<open>escapeHtml\<close> (part_001, lines 47-51) writes the text into a fresh element as its
  text content and reads the element's markup back: the serialisation of a text node,
  which replaces the four code units below and nothing else.
\<close>

definition escape_unit :: "char \<Rightarrow> string" where
  "escape_unit c =
     (if c = CHR ''&'' then ''&amp;''
      else if c = CHR 0xA0 then ''&nbsp;''
      else if c = CHR ''<'' then ''&lt;''
      else if c = CHR ''>'' then ''&gt;''
      else [c])"

definition escapeHtml :: "string \<Rightarrow> string" where
  "escapeHtml text = concat (map escape_unit text)"

subsection \<open>Records of the backend and the page\<close>

text \<open>
  A result record of the backend. \<open>None\<close> is a field that is absent (\<^verbatim>\<open>undefined\<close> when
  read); a price is a number or a string. A numeric price is modelled where it is an
  integer of magnitude below \<open>10\<^sup>2\<^sup>1\<close>, which JavaScript prints with all its digits as
  \<open>show_int\<close> does; a fraction, and a number from \<open>10\<^sup>2\<^sup>1\<close> on, which JavaScript prints in
  exponent notation, have no value in the model.
\<close>

datatype price_val = PNum int | PStr string

record item =
  item_name :: "string option"
  description :: "string option"
  image_path :: "string option"
  final_price :: "price_val option"
  special_price :: "price_val option"
  price :: "price_val option"
  colors :: "string list option"

definition show_price :: "price_val \<Rightarrow> string" where
  "show_price v = (case v of PNum n \<Rightarrow> show_int n | PStr s \<Rightarrow> s)"

text \<open>Truthiness of a present price: \<open>0\<close> and the empty string are falsy.\<close>

definition truthy_price :: "price_val \<Rightarrow> bool" where
  "truthy_price v = (case v of PNum n \<Rightarrow> n \<noteq> 0 | PStr s \<Rightarrow> s \<noteq> [])"

datatype js_error = TypeError | SyntaxError | FetchError

text \<open>A message is a string, or a string followed by an error converted to text.\<close>

datatype message = Plain string | WithError string js_error

text \<open>
  One result block appended to the results element: the image's \<^verbatim>\<open>src\<close>, \<^verbatim>\<open>alt\<close> and
  \<^verbatim>\<open>loading\<close> and the markup assigned to the content element.
\<close>

record block =
  img_src :: string
  img_alt :: string
  img_loading :: "string option"
  info_html :: string

datatype node = Markup string | Result block

record request =
  meth :: string
  url :: string
  form :: "(string \<times> string) list"

text \<open>
  The body of a response as \<^verbatim>\<open>resp.json()\<close> delivers it: not JSON (the call rejects),
  \<^verbatim>\<open>null\<close> (reading a property of it throws), or a value with its properties.
\<close>

datatype 'p json = NotJson | JsonNull | JsonVal 'p

record 'p response =
  status :: nat
  body_text :: "string option"
  body_json :: "'p json"

definition ok :: "'p response \<Rightarrow> bool" where
  "ok r = (200 \<le> status r \<and> status r \<le> 299)"

datatype 'p fetch_result = Rejected | Response "'p response"

record search_payload =
  results :: "item list option"

record suggest_payload =
  did_you_mean :: "string option"

record page =
  textInput :: string
  imageQuery :: "string list"
  resultsDiv :: "node list"
  resultsCount :: string
  suggestionDiv :: string
  alerts :: "message list"
  console :: "(string \<times> js_error) list"
  requests :: "request list"
  debounceTimer :: "nat option"
  timers :: "(nat \<times> nat) list"
  next_timer :: nat
  clock :: nat

definition alert :: "message \<Rightarrow> page \<Rightarrow> page" where
  "alert m s = s\<lparr>alerts := alerts s @ [m]\<rparr>"

definition console_error :: "string \<Rightarrow> js_error \<Rightarrow> page \<Rightarrow> page" where
  "console_error m e s = s\<lparr>console := console s @ [(m, e)]\<rparr>"

definition fetch :: "request \<Rightarrow> page \<Rightarrow> page" where
  "fetch r s = s\<lparr>requests := requests s @ [r]\<rparr>"

subsection \<open>Rendering results (displayResults)\<close>

definition no_results_html :: string where
  \<open>no_results_html =
     ''\<newline>      <div class="no-results">\<newline>        <i class="fas fa-search"></i>\<newline>        <h3>No results found</h3>\<newline>        <p>Try different keywords or another image.</p>\<newline>      </div>''\<close>

definition no_results_html_part000 :: string where
  \<open>no_results_html_part000 =
     ''<div class="no-results">\<newline>      <i class="fas fa-search"></i>\<newline>      <h3>No results found</h3>\<newline>      <p>Try different keywords or another image.</p>\<newline>    </div>''\<close>

definition count_label :: "nat \<Rightarrow> string" where
  "count_label n = show_nat n @ '' '' @ (if n = 1 then ''item'' else ''items'')"

text \<open>The image source, furniture.js lines 67-73.\<close>

definition image_url :: "string \<Rightarrow> string" where
  "image_url p =
     (if startsWith p ''/static'' then p
      else if startsWith p ''static'' then ''/'' @ p
      else ''/static/uploads/'' @ interpolate (pop (split CHR ''/'' p)))"

definition image_url_part000 :: "string \<Rightarrow> string" where
  "image_url_part000 p =
     (if startsWith p ''/static'' then p
      else ''/static/'' @ interpolate (pop (split CHR ''/'' p)))"

definition image_url_part001 :: "string option \<Rightarrow> string" where
  "image_url_part001 p = ''/static/'' @ interpolate p"

text \<open>The price placed in the block: line 85 of furniture.js, line 88 of part_001,
  line 41 of part_000.\<close>

definition result_price :: "item \<Rightarrow> price_val" where
  "result_price it =
     (case final_price it of Some v \<Rightarrow> v
      | None \<Rightarrow> (case price it of Some v \<Rightarrow> v | None \<Rightarrow> PStr ''''))"

definition result_price_part001 :: "item \<Rightarrow> price_val" where
  "result_price_part001 it =
     (case final_price it of Some v \<Rightarrow> v
      | None \<Rightarrow> (case special_price it of Some v \<Rightarrow> v
          | None \<Rightarrow> (case price it of Some v \<Rightarrow> v | None \<Rightarrow> PStr ''N/A'')))"

definition result_price_part000 :: "item \<Rightarrow> price_val" where
  "result_price_part000 it =
     (case price it of
        None \<Rightarrow> PStr ''''
      | Some v \<Rightarrow> if truthy_price v then v else PStr '''')"

definition tag_html :: "string \<Rightarrow> string" where
  \<open>tag_html c = ''<span class="tag">'' @ c @ ''</span>''\<close>

definition tags_of :: "item \<Rightarrow> string list" where
  "tags_of it = (case colors it of None \<Rightarrow> [] | Some cs \<Rightarrow> cs)"

text \<open>The template of the content element, with the four interpolated strings.\<close>

definition info_template :: "string \<Rightarrow> string \<Rightarrow> string \<Rightarrow> string \<Rightarrow> string" where
  \<open>info_template t d p tags =
     ''\<newline>      <h3 class="result-title">'' @ t @ ''</h3>\<newline>      <p class="result-description">'' @ d
     @ ''</p>\<newline>      <div class="result-price">'' @ p
     @ ''</div>\<newline>      <div class="result-tags">\<newline>        '' @ tags
     @ ''\<newline>      </div>\<newline>    ''\<close>

definition info_markup :: "item \<Rightarrow> string" where
  "info_markup it =
     info_template (or_else (item_name it) '''') (or_else (description it) '''')
       (show_price (result_price it)) (concat (map tag_html (tags_of it)))"

definition info_markup_part000 :: "item \<Rightarrow> string" where
  "info_markup_part000 it =
     info_template (interpolate (item_name it)) (or_else (description it) '''')
       (show_price (result_price_part000 it)) (concat (map tag_html (tags_of it)))"

definition info_markup_part001 :: "item \<Rightarrow> string" where
  "info_markup_part001 it =
     info_template (escapeHtml (or_else (item_name it) ''''))
       (escapeHtml (or_else (description it) ''''))
       (show_price (result_price_part001 it))
       (concat (map (\<lambda>color. tag_html (escapeHtml color)) (tags_of it)))"

text \<open>
  The body of the \<^verbatim>\<open>forEach\<close> callback up to the append: reading \<^verbatim>\<open>startsWith\<close> of an
  absent \<^verbatim>\<open>image_path\<close> throws before anything is attached to the results element.
\<close>

definition render_item :: "item \<Rightarrow> js_error + block" where
  "render_item it =
     (case image_path it of
        None \<Rightarrow> Inl TypeError
      | Some p \<Rightarrow>
          Inr \<lparr>img_src = image_url p,
               img_alt = or_else (item_name it) ''Furniture item'',
               img_loading = None,
               info_html = info_markup it\<rparr>)"

definition render_item_part000 :: "item \<Rightarrow> js_error + block" where
  "render_item_part000 it =
     (case image_path it of
        None \<Rightarrow> Inl TypeError
      | Some p \<Rightarrow>
          Inr \<lparr>img_src = image_url_part000 p,
               img_alt = interpolate (item_name it),
               img_loading = None,
               info_html = info_markup_part000 it\<rparr>)"

definition render_item_part001 :: "item \<Rightarrow> js_error + block" where
  "render_item_part001 it =
     Inr \<lparr>img_src = image_url_part001 (image_path it),
          img_alt = or_else (item_name it) ''Furniture item'',
          img_loading = Some ''lazy'',
          info_html = info_markup_part001 it\<rparr>"

text \<open>\<^verbatim>\<open>items.forEach\<close>: an exception of the callback ends the loop and leaves the
  blocks appended so far.\<close>

fun forEach :: "(item \<Rightarrow> js_error + block) \<Rightarrow> item list \<Rightarrow> page \<Rightarrow> js_error option \<times> page" where
  "forEach f [] s = (None, s)"
| "forEach f (it # its) s =
     (case f it of
        Inl e \<Rightarrow> (Some e, s)
      | Inr b \<Rightarrow> forEach f its (s\<lparr>resultsDiv := resultsDiv s @ [Result b]\<rparr>))"

text \<open>
  The body the three revisions of \<^verbatim>\<open>displayResults\<close> share (furniture.js lines 43-94):
  empty the results element, set the count label, then either place the placeholder and
  return or run the loop. The revisions differ in the placeholder's white space and in
  the callback.
\<close>

definition display_with ::
  "string \<Rightarrow> (item \<Rightarrow> js_error + block) \<Rightarrow> item list \<Rightarrow> page \<Rightarrow> js_error option \<times> page" where
  "display_with placeholder f items s =
     (let s1 = s\<lparr>resultsDiv := []\<rparr>;
          s2 = s1\<lparr>resultsCount := count_label (length items)\<rparr>
      in if length items = 0 then (None, s2\<lparr>resultsDiv := [Markup placeholder]\<rparr>)
         else forEach f items s2)"

definition displayResults :: "item list \<Rightarrow> page \<Rightarrow> js_error option \<times> page" where
  "displayResults items s = display_with no_results_html render_item items s"

definition displayResults_part001 :: "item list \<Rightarrow> page \<Rightarrow> js_error option \<times> page" where
  "displayResults_part001 items s = display_with no_results_html render_item_part001 items s"

text \<open>part_000 passes \<^verbatim>\<open>data.results\<close> on as it is: on \<^verbatim>\<open>undefined\<close> the results
  element is emptied (line 10) before \<^verbatim>\<open>items.length\<close> throws (line 11).\<close>

definition displayResults_part000 :: "item list option \<Rightarrow> page \<Rightarrow> js_error option \<times> page" where
  "displayResults_part000 arg s =
     (case arg of
        None \<Rightarrow> (Some TypeError, s\<lparr>resultsDiv := []\<rparr>)
      | Some items \<Rightarrow> display_with no_results_html_part000 render_item_part000 items s)"

subsection \<open>Text and image search\<close>

definition text_request :: "string \<Rightarrow> request" where
  "text_request q =
     \<lparr>meth = ''GET'', url = ''/search/text?q='' @ encodeURIComponent q @ ''&k=10'', form = []\<rparr>"

definition image_request :: "string \<Rightarrow> request" where
  "image_request file =
     \<lparr>meth = ''POST'', url = ''/search/image?k=10'', form = [(''image'', file)]\<rparr>"

definition results_or_empty :: "search_payload \<Rightarrow> item list" where
  "results_or_empty d = (case results d of None \<Rightarrow> [] | Some xs \<Rightarrow> xs)"

text \<open>
  The \<^verbatim>\<open>try\<close> block from the settled \<^verbatim>\<open>fetch\<close> on: the error is the exception that
  reaches the \<^verbatim>\<open>catch\<close>. furniture.js lines 107-115 and 135-147; part_001 lines 117-124
  and 145-157 with its own \<^verbatim>\<open>displayResults\<close>.
\<close>

definition handle_response ::
  "(item list \<Rightarrow> page \<Rightarrow> js_error option \<times> page) \<Rightarrow> search_payload fetch_result \<Rightarrow> page
     \<Rightarrow> js_error option \<times> page" where
  "handle_response display reply s =
     (case reply of
        Rejected \<Rightarrow> (Some FetchError, s)
      | Response r \<Rightarrow>
          if \<not> ok r then
            (case body_text r of
               None \<Rightarrow> (Some FetchError, s)
             | Some t \<Rightarrow> (None, alert (Plain (''Error '' @ show_nat (status r) @ '': '' @ t)) s))
          else
            (case body_json r of
               NotJson \<Rightarrow> (Some SyntaxError, s)
             | JsonNull \<Rightarrow> (Some TypeError, s)
             | JsonVal d \<Rightarrow> display (results_or_empty d) s))"

definition searchText :: "search_payload fetch_result \<Rightarrow> page \<Rightarrow> page" where
  "searchText reply s =
     (let q = trim (textInput s)
      in if q = [] then alert (Plain ''Enter a text query'') s
         else
           (let s1 = s\<lparr>suggestionDiv := []\<rparr>;
                s2 = fetch (text_request q) s1
            in case handle_response displayResults reply s2 of
                 (None, s3) \<Rightarrow> s3
               | (Some e, s3) \<Rightarrow> alert (WithError ''Error fetching results: '' e) s3))"

definition searchImage :: "search_payload fetch_result \<Rightarrow> page \<Rightarrow> page" where
  "searchImage reply s =
     (case imageQuery s of
        [] \<Rightarrow> alert (Plain ''Select an image first'') s
      | file # _ \<Rightarrow>
          (let s1 = s\<lparr>suggestionDiv := []\<rparr>;
               s2 = fetch (image_request file) s1
           in case handle_response displayResults reply s2 of
                (None, s3) \<Rightarrow> s3
              | (Some e, s3) \<Rightarrow> alert (WithError ''Error fetching image results: '' e) s3))"

definition searchText_part001 :: "search_payload fetch_result \<Rightarrow> page \<Rightarrow> page" where
  "searchText_part001 reply s =
     (let q = trim (textInput s)
      in if q = [] then alert (Plain ''Please enter a text query'') s
         else
           (let s1 = s\<lparr>suggestionDiv := []\<rparr>;
                s2 = fetch (text_request q) s1
            in case handle_response displayResults_part001 reply s2 of
                 (None, s3) \<Rightarrow> s3
               | (Some e, s3) \<Rightarrow>
                   alert (Plain ''Failed to search. Check console for details.'')
                     (console_error ''Text search error:'' e s3)))"

definition searchImage_part001 :: "search_payload fetch_result \<Rightarrow> page \<Rightarrow> page" where
  "searchImage_part001 reply s =
     (case imageQuery s of
        [] \<Rightarrow> alert (Plain ''Please select an image first'') s
      | file # _ \<Rightarrow>
          (let s1 = s\<lparr>suggestionDiv := []\<rparr>;
               s2 = fetch (image_request file) s1
           in case handle_response displayResults_part001 reply s2 of
                (None, s3) \<Rightarrow> s3
              | (Some e, s3) \<Rightarrow>
                  alert (Plain ''Failed to search by image. Check console for details.'')
                    (console_error ''Image search error:'' e s3)))"

text \<open>part_000, lines 57-68: the text search tests \<^verbatim>\<open>resp.ok\<close>.\<close>

definition handle_text_part000 :: "search_payload fetch_result \<Rightarrow> page \<Rightarrow> js_error option \<times> page" where
  "handle_text_part000 reply s =
     (case reply of
        Rejected \<Rightarrow> (Some FetchError, s)
      | Response r \<Rightarrow>
          if \<not> ok r then
            (case body_text r of
               None \<Rightarrow> (Some FetchError, s)
             | Some t \<Rightarrow> (None, alert (Plain (''Error: '' @ show_nat (status r) @ '' - '' @ t)) s))
          else
            (case body_json r of
               NotJson \<Rightarrow> (Some SyntaxError, s)
             | JsonNull \<Rightarrow> (Some TypeError, s)
             | JsonVal d \<Rightarrow> displayResults_part000 (results d) s))"

text \<open>part_000, lines 79-85: the image search reads the body whatever the status.\<close>

definition handle_image_part000 :: "search_payload fetch_result \<Rightarrow> page \<Rightarrow> js_error option \<times> page" where
  "handle_image_part000 reply s =
     (case reply of
        Rejected \<Rightarrow> (Some FetchError, s)
      | Response r \<Rightarrow>
          (case body_json r of
             NotJson \<Rightarrow> (Some SyntaxError, s)
           | JsonNull \<Rightarrow> (Some TypeError, s)
           | JsonVal d \<Rightarrow> displayResults_part000 (results d) s))"

definition searchText_part000 :: "search_payload fetch_result \<Rightarrow> page \<Rightarrow> page" where
  "searchText_part000 reply s =
     (let q = trim (textInput s)
      in if q = [] then alert (Plain ''Enter a text query'') s
         else
           (let s2 = fetch (text_request q) s
            in case handle_text_part000 reply s2 of
                 (None, s3) \<Rightarrow> s3
               | (Some e, s3) \<Rightarrow> alert (WithError ''Error fetching results: '' e) s3))"

definition searchImage_part000 :: "search_payload fetch_result \<Rightarrow> page \<Rightarrow> page" where
  "searchImage_part000 reply s =
     (case imageQuery s of
        [] \<Rightarrow> alert (Plain ''Select an image first'') s
      | file # _ \<Rightarrow>
          (let s2 = fetch (image_request file) s
           in case handle_image_part000 reply s2 of
                (None, s3) \<Rightarrow> s3
              | (Some e, s3) \<Rightarrow> alert (WithError ''Error fetching image results: '' e) s3))"

subsection \<open>Suggestions\<close>

definition suggest_request :: "string \<Rightarrow> request" where
  "suggest_request q =
     \<lparr>meth = ''GET'', url = ''/suggest?q='' @ encodeURIComponent q, form = []\<rparr>"

text \<open>The markup of the suggestion, furniture.js line 32; \<open>CHR 0x27\<close> is the single quote.\<close>

definition suggestion_html :: "string \<Rightarrow> string" where
  \<open>suggestion_html d =
     ''Did you mean: <a href="#" onclick="setSearchExample('' @ [CHR 0x27] @ d @ [CHR 0x27]
     @ '')">'' @ d @ ''</a>?''\<close>

definition suggestion_html_part001 :: "string \<Rightarrow> string" where
  \<open>suggestion_html_part001 d =
     ''\<newline>        Did you mean: \<newline>        <a href="#" onclick="setSearchExample(''
     @ [CHR 0x27] @ escapeHtml d @ [CHR 0x27]
     @ '')">\<newline>          '' @ escapeHtml d @ ''\<newline>        </a>?\<newline>      ''\<close>

text \<open>
  \<^verbatim>\<open>fetchSuggestion\<close> up to its \<^verbatim>\<open>await\<close> (lines 21-28): the query it sends, if any.
\<close>

definition fetchSuggestion_begin :: "page \<Rightarrow> string option \<times> page" where
  "fetchSuggestion_begin s =
     (let q = trim (textInput s)
      in if q = [] then (None, s\<lparr>suggestionDiv := []\<rparr>)
         else (Some q, fetch (suggest_request q) s))"

text \<open>\<^verbatim>\<open>fetchSuggestion\<close> from the settled request on (lines 28-39).\<close>

definition suggestion_failed :: "js_error \<Rightarrow> page \<Rightarrow> page" where
  "suggestion_failed e s = (console_error ''Suggestion error:'' e s)\<lparr>suggestionDiv := []\<rparr>"

definition fetchSuggestion_end ::
  "(string \<Rightarrow> string) \<Rightarrow> string \<Rightarrow> suggest_payload fetch_result \<Rightarrow> page \<Rightarrow> page" where
  "fetchSuggestion_end html q reply s =
     (case reply of
        Rejected \<Rightarrow> suggestion_failed FetchError s
      | Response r \<Rightarrow>
          (case body_json r of
             NotJson \<Rightarrow> suggestion_failed SyntaxError s
           | JsonNull \<Rightarrow> suggestion_failed TypeError s
           | JsonVal data \<Rightarrow>
               (case did_you_mean data of
                  None \<Rightarrow> s\<lparr>suggestionDiv := []\<rparr>
                | Some d \<Rightarrow>
                    if d \<noteq> [] \<and> toLowerCase d \<noteq> toLowerCase q
                    then s\<lparr>suggestionDiv := html d\<rparr>
                    else s\<lparr>suggestionDiv := []\<rparr>)))"

definition fetchSuggestion :: "suggest_payload fetch_result \<Rightarrow> page \<Rightarrow> page" where
  "fetchSuggestion reply s =
     (case fetchSuggestion_begin s of
        (None, s1) \<Rightarrow> s1
      | (Some q, s1) \<Rightarrow> fetchSuggestion_end suggestion_html q reply s1)"

definition fetchSuggestion_part001 :: "suggest_payload fetch_result \<Rightarrow> page \<Rightarrow> page" where
  "fetchSuggestion_part001 reply s =
     (case fetchSuggestion_begin s of
        (None, s1) \<Rightarrow> s1
      | (Some q, s1) \<Rightarrow> fetchSuggestion_end suggestion_html_part001 q reply s1)"

subsection \<open>The debounce timer\<close>

text \<open>
  Time is counted in milliseconds. An armed timer is a pair of its handle and the time
  it is due; the only callback the module ever arms is \<^verbatim>\<open>fetchSuggestion\<close>.
\<close>

definition clearTimeout :: "nat option \<Rightarrow> page \<Rightarrow> page" where
  "clearTimeout h s =
     (case h of
        None \<Rightarrow> s
      | Some i \<Rightarrow> s\<lparr>timers := filter (\<lambda>t. fst t \<noteq> i) (timers s)\<rparr>)"

definition setTimeout :: "nat \<Rightarrow> page \<Rightarrow> nat \<times> page" where
  "setTimeout delay s =
     (next_timer s,
      s\<lparr>timers := timers s @ [(next_timer s, clock s + delay)],
        next_timer := Suc (next_timer s)\<rparr>)"

text \<open>The listener of the \<^verbatim>\<open>input\<close> event, lines 9-12.\<close>

definition input_listener :: "page \<Rightarrow> page" where
  "input_listener s =
     (let s1 = clearTimeout (debounceTimer s) s;
          (h, s2) = setTimeout 300 s1
      in s2\<lparr>debounceTimer := Some h\<rparr>)"

text \<open>The user changes the text of the input to \<open>v\<close>, and the listener runs.\<close>

definition input_change :: "string \<Rightarrow> page \<Rightarrow> page" where
  "input_change v s = input_listener (s\<lparr>textInput := v\<rparr>)"

definition next_due :: "nat \<Rightarrow> page \<Rightarrow> (nat \<times> nat) option" where
  "next_due t s =
     (let due = filter (\<lambda>x. snd x \<le> t) (timers s)
      in if due = [] then None else Some (arg_min_list snd due))"

text \<open>A due timer leaves the armed ones and its callback runs up to its \<^verbatim>\<open>await\<close>.\<close>

definition timer_fires :: "nat \<times> nat \<Rightarrow> page \<Rightarrow> page" where
  "timer_fires x s =
     snd (fetchSuggestion_begin
            (s\<lparr>timers := filter (\<lambda>t. fst t \<noteq> fst x) (timers s),
               clock := max (clock s) (snd x)\<rparr>))"

text \<open>Time passes until \<open>t\<close>: the due timers fire, the earliest first.\<close>

function run_until :: "nat \<Rightarrow> page \<Rightarrow> page" where
  "run_until t s =
     (case next_due t s of
        None \<Rightarrow> s\<lparr>clock := max (clock s) t\<rparr>
      | Some x \<Rightarrow> run_until t (timer_fires x s))"
  by pat_completeness auto
termination
proof (relation "measure (\<lambda>(t, s). length (timers s))")
  show "wf (measure (\<lambda>(t, s). length (timers s)))"
    by simp
next
  fix t :: nat and s :: page and x :: "nat \<times> nat"
  assume due: "next_due t s = Some x"
  have "x \<in> set (filter (\<lambda>x. snd x \<le> t) (timers s))"
    using due arg_min_list_in [of "filter (\<lambda>x. snd x \<le> t) (timers s)" snd]
    by (auto simp: next_due_def Let_def split: if_splits)
  then have mem: "x \<in> set (timers s)"
    by simp
  have "length (filter (\<lambda>t. fst t \<noteq> fst x) (timers s)) < length (timers s)"
    using mem by (intro length_filter_less [of x]) auto
  moreover have "timers (timer_fires x s) = filter (\<lambda>t. fst t \<noteq> fst x) (timers s)"
    by (simp add: timer_fires_def fetchSuggestion_begin_def fetch_def Let_def)
  ultimately show "((t, timer_fires x s), (t, s)) \<in> measure (\<lambda>(t, s). length (timers s))"
    by simp
qed

declare run_until.simps [simp del]

text \<open>An input change at a time: first the time passes, then the event is handled.\<close>

datatype event = Input nat string

fun run_events :: "event list \<Rightarrow> page \<Rightarrow> page" where
  "run_events [] s = s"
| "run_events (Input t v # es) s = run_events es (input_change v (run_until t s))"

subsection \<open>Notions used in the statements\<close>

text \<open>The blocks a callback yields before its first exception, and that exception.\<close>

fun blocks_until :: "(item \<Rightarrow> js_error + block) \<Rightarrow> item list \<Rightarrow> block list" where
  "blocks_until f [] = []"
| "blocks_until f (it # its) = (case f it of Inl e \<Rightarrow> [] | Inr b \<Rightarrow> b # blocks_until f its)"

fun first_error :: "(item \<Rightarrow> js_error + block) \<Rightarrow> item list \<Rightarrow> js_error option" where
  "first_error f [] = None"
| "first_error f (it # its) = (case f it of Inl e \<Rightarrow> Some e | Inr b \<Rightarrow> first_error f its)"

text \<open>The page as it is loaded, and a record with every field absent.\<close>

definition blank_page :: page where
  "blank_page = \<lparr>textInput = [], imageQuery = [], resultsDiv = [], resultsCount = [],
     suggestionDiv = [], alerts = [], console = [], requests = [], debounceTimer = None,
     timers = [], next_timer = 0, clock = 0\<rparr>"

definition blank_item :: item where
  "blank_item = \<lparr>item_name = None, description = None, image_path = None, final_price = None,
     special_price = None, price = None, colors = None\<rparr>"

text \<open>
  The three cases of the image path in the specification's words, as conditions on the
  path: a path rooted at the static namespace is \<^verbatim>\<open>/static\<close> itself or goes on below it,
  with \<^verbatim>\<open>/static/\<close>; a path missing only the leading separator is rooted once \<^verbatim>\<open>/\<close> is put
  before it; a bare file name has no separator and is neither of the two.
\<close>

definition rooted_at_static :: "string \<Rightarrow> bool" where
  "rooted_at_static p = (p = ''/static'' \<or> startsWith p ''/static/'')"

definition missing_leading_separator :: "string \<Rightarrow> bool" where
  "missing_leading_separator p = rooted_at_static (''/'' @ p)"

definition bare_filename :: "string \<Rightarrow> bool" where
  "bare_filename p =
     (CHR ''/'' \<notin> set p \<and> \<not> rooted_at_static p \<and> \<not> missing_leading_separator p)"

text \<open>Example records and replies.\<close>

definition sofa_a :: item where
  "sofa_a = blank_item\<lparr>item_name := Some ''Sofa A'', image_path := Some ''static/uploads/a.jpg'',
     price := Some (PNum 199)\<rparr>"

definition sofa_b :: item where
  "sofa_b = blank_item\<lparr>item_name := Some ''Sofa B'', image_path := Some ''/static/uploads/b.jpg''\<rparr>"

definition no_path :: item where
  "no_path = blank_item\<lparr>item_name := Some ''Chair''\<rparr>"

definition empty_path :: item where
  "empty_path = blank_item\<lparr>item_name := Some ''Chair'', image_path := Some []\<rparr>"

definition disk_path :: item where
  "disk_path = blank_item\<lparr>image_path := Some ''/srv/data/img/a.jpg''\<rparr>"

definition static_sofa :: item where
  "static_sofa = blank_item\<lparr>image_path := Some ''static-sofa.jpg''\<rparr>"

definition staticky :: item where
  "staticky = blank_item\<lparr>image_path := Some ''/staticky.png''\<rparr>"

definition catalog_a :: item where
  "catalog_a = blank_item\<lparr>image_path := Some ''static/img/a.jpg''\<rparr>"

definition catalog_b :: item where
  "catalog_b = blank_item\<lparr>image_path := Some ''/static/img/b.jpg''\<rparr>"

definition bare_c :: item where
  "bare_c = blank_item\<lparr>image_path := Some ''c.jpg''\<rparr>"

definition markup_item :: item where
  "markup_item = blank_item\<lparr>item_name := Some ''<img onerror=x>'',
     image_path := Some ''static/uploads/a.jpg''\<rparr>"

definition special_item :: item where
  "special_item = blank_item\<lparr>image_path := Some ''static/uploads/a.jpg'',
     special_price := Some (PNum 7), price := Some (PNum 9)\<rparr>"

definition bad_request :: "search_payload response" where
  \<open>bad_request = \<lparr>status = 400, body_text = Some ''{"detail":"Invalid image"}'',
     body_json = JsonVal \<lparr>results = None\<rparr>\<rparr>\<close>

definition error_with_suggestion :: "suggest_payload response" where
  \<open>error_with_suggestion = \<lparr>status = 500, body_text = Some ''{"did_you_mean":"sofa"}'',
     body_json = JsonVal \<lparr>did_you_mean = Some ''sofa''\<rparr>\<rparr>\<close>

text \<open>A page that shows one result and has one file selected.\<close>

definition shown_page :: page where
  "shown_page = (snd (displayResults [sofa_a] blank_page))\<lparr>imageQuery := [''chair.jpg'']\<rparr>"

text \<open>The suggestion a reply carries in its body, whatever its status.\<close>

definition reply_suggestion :: "suggest_payload fetch_result \<Rightarrow> string option" where
  "reply_suggestion reply =
     (case reply of
        Rejected \<Rightarrow> None
      | Response r \<Rightarrow>
          (case body_json r of NotJson \<Rightarrow> None | JsonNull \<Rightarrow> None
           | JsonVal data \<Rightarrow> did_you_mean data))"

text \<open>
  The parameters a server reads from a URL: what follows the first \<^verbatim>\<open>?\<close>, split at
  \<^verbatim>\<open>&\<close>, each part split at its first \<^verbatim>\<open>=\<close>.
\<close>

definition query_params :: "string \<Rightarrow> (string \<times> string) list" where
  "query_params u =
     map (\<lambda>kv. (takeWhile (\<lambda>c. c \<noteq> CHR ''='') kv, drop 1 (dropWhile (\<lambda>c. c \<noteq> CHR ''='') kv)))
       (split CHR ''&'' (drop 1 (dropWhile (\<lambda>c. c \<noteq> CHR ''?'') u)))"

definition limit_of :: "request \<Rightarrow> string option" where
  "limit_of r = map_of (query_params (url r)) ''k''"

text \<open>The requests issued between two states of the page.\<close>

definition new_requests :: "page \<Rightarrow> page \<Rightarrow> request list" where
  "new_requests s s' = drop (length (requests s)) (requests s')"

definition requests_limit_10 :: "page \<Rightarrow> page \<Rightarrow> bool" where
  "requests_limit_10 s s' =
     (take (length (requests s)) (requests s') = requests s
      \<and> length (new_requests s s') \<le> 1
      \<and> list_all (\<lambda>r. limit_of r = Some ''10'') (new_requests s s'))"





section \<open>Properties\<close>

subsection \<open>The rendering loop\<close>

lemma forEach_eq:
  "forEach f its s =
     (first_error f its, s\<lparr>resultsDiv := resultsDiv s @ map Result (blocks_until f its)\<rparr>)"
  by (induction its arbitrary: s) (auto split: sum.splits)

lemma display_with_eq:
  "display_with ph f its s =
     (first_error f its,
      s\<lparr>resultsDiv := (if its = [] then [Markup ph] else map Result (blocks_until f its)),
        resultsCount := count_label (length its)\<rparr>)"
  by (simp add: display_with_def forEach_eq Let_def)

lemma show_nat_0: "show_nat 0 = ''0''"
  by (simp add: show_nat.simps)

lemma show_nat_Suc0: "show_nat (Suc 0) = ''1''"
  by (simp add: show_nat.simps)

text \<open>
  C6: \<^verbatim>\<open>displayResults\<close> always sets the count label to the length of the list followed
  by \<^verbatim>\<open>item\<close> for one element and \<^verbatim>\<open>items\<close> otherwise; on the empty list the label is
  \<^verbatim>\<open>0 items\<close> and the results element holds the no-results placeholder and no result
  block; on a one-element list the label is \<^verbatim>\<open>1 item\<close>.
\<close>

theorem displayResults_count_label:
  "resultsCount (snd (displayResults items s))
     = show_nat (length items) @ (if length items = 1 then '' item'' else '' items'')
   \<and> displayResults [] s
     = (None, s\<lparr>resultsDiv := [Markup no_results_html], resultsCount := ''0 items''\<rparr>)
   \<and> resultsCount (snd (displayResults [r] s)) = ''1 item''"
  by (simp add: displayResults_def display_with_eq count_label_def show_nat_0 show_nat_Suc0)

theorem displayResults_count_label_witness:
  "resultsCount (snd (displayResults [blank_item, blank_item] blank_page)) = ''2 items''
   \<and> resultsCount (snd (displayResults [blank_item\<lparr>item_name := Some []\<rparr>] blank_page)) = ''1 item''"
  using displayResults_count_label [of "[blank_item, blank_item]" blank_page blank_item]
    displayResults_count_label [of "[]" blank_page "blank_item\<lparr>item_name := Some []\<rparr>"]
  by (simp add: show_nat.simps)

text \<open>
  C7: \<^verbatim>\<open>displayResults\<close> repaints: the results element and the count label it leaves
  depend on the list alone, not on what the page showed before, and calling it twice
  with the same list leaves the page that one call leaves.
\<close>

theorem displayResults_idempotent:
  "resultsDiv (snd (displayResults items s)) = resultsDiv (snd (displayResults items s0))
   \<and> resultsCount (snd (displayResults items s)) = resultsCount (snd (displayResults items s0))
   \<and> displayResults items (snd (displayResults items s)) = displayResults items s"
  by (simp add: displayResults_def display_with_eq)

lemma blocks_until_render_item:
  "map Inr (blocks_until render_item its) = map render_item (takeWhile (\<lambda>it. image_path it \<noteq> None) its)"
  by (induction its) (auto simp: render_item_def split: option.splits)

lemma first_error_render_item:
  "first_error render_item its = (if \<forall>it \<in> set its. image_path it \<noteq> None then None else Some TypeError)"
  by (induction its) (auto simp: render_item_def split: option.splits)

text \<open>
  C3, as the code has it: \<^verbatim>\<open>displayResults\<close> drops no record. On a non-empty list it
  renders the records before the first one whose \<^verbatim>\<open>image_path\<close> is absent, in order, and
  at that record it throws a \<^verbatim>\<open>TypeError\<close>, so neither it nor any later record is
  rendered; with no such record it renders them all and throws nothing. A record whose
  \<^verbatim>\<open>image_path\<close> is the empty string is rendered as a block with the image source
  \<^verbatim>\<open>/static/uploads/\<close>.
\<close>

theorem displayResults_stops_at_missing_path:
  assumes "items \<noteq> []"
  shows "\<exists>bs. resultsDiv (snd (displayResults items s)) = map Result bs
          \<and> map Inr bs = map render_item (takeWhile (\<lambda>it. image_path it \<noteq> None) items)
          \<and> fst (displayResults items s)
              = (if \<forall>it \<in> set items. image_path it \<noteq> None then None else Some TypeError)
          \<and> (\<forall>it \<in> set items. image_path it = Some [] \<longrightarrow>
                (\<exists>b. render_item it = Inr b \<and> img_src b = ''/static/uploads/''))"
  using assms
  by (intro exI [of _ "blocks_until render_item items"])
     (simp add: displayResults_def display_with_eq blocks_until_render_item first_error_render_item
        render_item_def image_url_def startsWith_def pop_def interpolate_def)

theorem displayResults_stops_at_missing_path_witness:
  "[sofa_a, no_path, sofa_b] \<noteq> []
   \<and> (\<exists>b. resultsDiv (snd (displayResults [sofa_a, no_path, sofa_b] blank_page)) = [Result b])
   \<and> fst (displayResults [sofa_a, no_path, sofa_b] blank_page) = Some TypeError"
  using displayResults_stops_at_missing_path [of "[sofa_a, no_path, sofa_b]" blank_page]
  by (auto simp: sofa_a_def no_path_def sofa_b_def blank_item_def render_item_def)

text \<open>
  C3 as stated fails: with the record without \<^verbatim>\<open>image_path\<close> between two well-formed
  records one block is rendered, and with an empty \<^verbatim>\<open>image_path\<close> three are.
\<close>

theorem displayResults_drops_counterexample:
  "length (resultsDiv (snd (displayResults [sofa_a, no_path, sofa_b] blank_page))) \<noteq> 2
   \<and> length (resultsDiv (snd (displayResults [sofa_a, empty_path, sofa_b] blank_page))) \<noteq> 2"
  by (simp add: displayResults_def display_with_eq render_item_def
        sofa_a_def no_path_def empty_path_def sofa_b_def blank_item_def)

subsection \<open>The image source\<close>

lemma split_not_Nil [simp]: "split c s \<noteq> []"
  by (induction s) (auto split: list.splits)

lemma split_single: "c \<notin> set s \<Longrightarrow> split c s = [s]"
  by (induction s) auto

lemma split_two: "c \<in> set s \<Longrightarrow> \<exists>w v ws. split c s = w # v # ws"
proof (induction s)
  case Nil
  then show ?case by simp
next
  case (Cons x xs)
  show ?case
  proof (cases "x = c")
    case True
    obtain w ws where "split c xs = w # ws"
      using split_not_Nil [of c xs] by (cases "split c xs") auto
    then show ?thesis using True by simp
  next
    case False
    then have "c \<in> set xs" using Cons.prems by simp
    then obtain w v ws where "split c xs = w # v # ws"
      using Cons.IH by blast
    then show ?thesis using False by simp
  qed
qed

lemma takeWhile_snoc_other:
  "c \<in> set ys \<Longrightarrow> takeWhile (\<lambda>x. x \<noteq> c) (ys @ zs) = takeWhile (\<lambda>x. x \<noteq> c) ys"
  by (induction ys) auto

lemma last_split: "last (split c s) = rev (takeWhile (\<lambda>x. x \<noteq> c) (rev s))"
proof (induction s)
  case Nil
  then show ?case by simp
next
  case (Cons x xs)
  show ?case
  proof (cases "c \<in> set xs")
    case True
    then obtain w v ws where sp: "split c xs = w # v # ws"
      using split_two by blast
    have A: "last (split c (x # xs)) = last (split c xs)"
      using sp by simp
    have B: "rev (takeWhile (\<lambda>x. x \<noteq> c) (rev (x # xs))) = rev (takeWhile (\<lambda>x. x \<noteq> c) (rev xs))"
      using True by (simp add: takeWhile_snoc_other)
    show ?thesis by (simp only: A B Cons.IH)
  next
    case False
    show ?thesis
    proof (cases "x = c")
      case True
      have A: "last (split c (x # xs)) = xs"
        using False True by (simp add: split_single)
      have B: "rev (takeWhile (\<lambda>x. x \<noteq> c) (rev (x # xs))) = xs"
        using False True by (simp add: takeWhile_append)
      show ?thesis by (simp only: A B)
    next
      case neq: False
      have A: "last (split c (x # xs)) = x # xs"
        using False neq by (simp add: split_single)
      have B: "rev (takeWhile (\<lambda>x. x \<noteq> c) (rev (x # xs))) = x # xs"
        using False neq by (simp add: takeWhile_append)
      show ?thesis by (simp only: A B)
    qed
  qed
qed

lemma last_split_decomp:
  "\<exists>dir. s = dir @ last (split c s) \<and> (dir = [] \<or> last dir = c) \<and> c \<notin> set (last (split c s))"
proof -
  let ?P = "\<lambda>x. x \<noteq> c"
  let ?d = "rev (dropWhile ?P (rev s))"
  have "s = ?d @ last (split c s)"
    by (simp add: last_split flip: rev_append) 
  moreover have "?d = [] \<or> last ?d = c"
    using hd_dropWhile [of ?P "rev s"] by (auto simp: last_rev)
  moreover have "c \<notin> set (last (split c s))"
    using set_takeWhileD [of c ?P "rev s"] by (auto simp: last_split)
  ultimately show ?thesis by blast
qed

lemma pop_split: "pop (split c s) = Some (last (split c s))"
  by (simp add: pop_def)

lemma startsWith_prefix: "startsWith s p = prefix p s"
  by (auto simp: startsWith_def prefix_def) (metis append_eq_conv_conj)

lemma rooted_startsWith: "rooted_at_static p \<Longrightarrow> startsWith p ''/static''"
proof -
  assume "rooted_at_static p"
  then have "p = ''/static'' \<or> prefix ''/static/'' p"
    by (simp add: rooted_at_static_def startsWith_prefix)
  moreover have h: "prefix ''/static'' ''/static/''"
    by simp
  ultimately have "prefix ''/static'' p"
    using prefix_order.trans [OF h, of p] by blast
  then show ?thesis
    by (simp add: startsWith_prefix)
qed

lemma missing_startsWith:
  "missing_leading_separator p \<Longrightarrow> startsWith p ''static'' \<and> \<not> startsWith p ''/static''"
proof -
  assume "missing_leading_separator p"
  then have "p = ''static'' \<or> prefix ''static/'' p"
    by (simp add: missing_leading_separator_def rooted_at_static_def startsWith_prefix)
  moreover have h: "prefix ''static'' ''static/''"
    by simp
  ultimately have "prefix ''static'' p"
    using prefix_order.trans [OF h, of p] by blast
  then obtain zs where "p = ''static'' @ zs"
    by (auto simp: prefix_def)
  then show ?thesis
    by (simp add: startsWith_prefix)
qed

lemma bare_not_slash: "CHR ''/'' \<notin> set p \<Longrightarrow> \<not> startsWith p ''/static''"
  unfolding startsWith_def by (cases p) auto

text \<open>
  C4, as the code has it: the three cases are told apart by the characters the path
  starts with, not by its components. For a record with an \<^verbatim>\<open>image_path\<close> \<open>p\<close> a block is
  rendered whose image source is \<open>p\<close> itself when \<open>p\<close> starts with the characters
  \<^verbatim>\<open>/static\<close>; else \<^verbatim>\<open>/\<close> followed by \<open>p\<close> when \<open>p\<close> starts with the characters \<^verbatim>\<open>static\<close>;
  else \<^verbatim>\<open>/static/uploads/\<close> followed by the file name \<open>f\<close> that is left of \<open>p\<close> when its
  directories are stripped (what follows its last \<^verbatim>\<open>/\<close>), a source that ends with
  \<^verbatim>\<open>/uploads/\<close> and \<open>f\<close>. So a path rooted at the static namespace is kept, a path
  missing only the leading separator gets it, and a bare file name \<open>f\<close> that does not
  start with the characters \<^verbatim>\<open>static\<close> is resolved to \<^verbatim>\<open>/static/uploads/\<close> and \<open>f\<close>.
\<close>

theorem image_url_prefix_tiers:
  assumes "image_path it = Some p"
  shows "\<exists>b. render_item it = Inr b
     \<and> (startsWith p ''/static'' \<longrightarrow> img_src b = p)
     \<and> (\<not> startsWith p ''/static'' \<and> startsWith p ''static'' \<longrightarrow> img_src b = ''/'' @ p)
     \<and> (\<not> startsWith p ''/static'' \<and> \<not> startsWith p ''static'' \<longrightarrow>
          (\<exists>dir f. p = dir @ f \<and> (dir = [] \<or> last dir = CHR ''/'') \<and> CHR ''/'' \<notin> set f
             \<and> img_src b = ''/static/uploads/'' @ f
             \<and> suffix (''/uploads/'' @ f) (img_src b)))
     \<and> (rooted_at_static p \<longrightarrow> img_src b = p)
     \<and> (missing_leading_separator p \<longrightarrow> img_src b = ''/'' @ p)
     \<and> (bare_filename p \<and> \<not> startsWith p ''static'' \<longrightarrow>
          img_src b = ''/static/uploads/'' @ p \<and> suffix (''/uploads/'' @ p) (img_src b))"
proof -
  obtain dir where d: "p = dir @ last (split CHR ''/'' p)" "dir = [] \<or> last dir = CHR ''/''"
    "CHR ''/'' \<notin> set (last (split CHR ''/'' p))"
    using last_split_decomp [of p "CHR ''/''"] by blast
  let ?f = "last (split CHR ''/'' p)"
  let ?b = "\<lparr>img_src = image_url p, img_alt = or_else (item_name it) ''Furniture item'',
              img_loading = None, info_html = info_markup it\<rparr>"
  have r: "render_item it = Inr ?b"
    using assms by (simp add: render_item_def)
  have s: "suffix (''/uploads/'' @ f) (''/static/uploads/'' @ f)" for f :: string
    by (simp add: suffix_def)
  have t1: "startsWith p ''/static'' \<longrightarrow> img_src ?b = p"
    by (simp add: image_url_def)
  have t2: "\<not> startsWith p ''/static'' \<and> startsWith p ''static'' \<longrightarrow> img_src ?b = ''/'' @ p"
    by (simp add: image_url_def)
  have t3: "\<not> startsWith p ''/static'' \<and> \<not> startsWith p ''static'' \<longrightarrow>
          (\<exists>dir f. p = dir @ f \<and> (dir = [] \<or> last dir = CHR ''/'') \<and> CHR ''/'' \<notin> set f
             \<and> img_src ?b = ''/static/uploads/'' @ f
             \<and> suffix (''/uploads/'' @ f) (img_src ?b))"
    using d s [of ?f] by (auto simp: image_url_def pop_split interpolate_def)
  have t4: "rooted_at_static p \<longrightarrow> img_src ?b = p"
    using rooted_startsWith [of p] by (simp add: image_url_def)
  have t5: "missing_leading_separator p \<longrightarrow> img_src ?b = ''/'' @ p"
    using missing_startsWith [of p] by (auto simp: image_url_def)
  have t6: "bare_filename p \<and> \<not> startsWith p ''static'' \<longrightarrow>
          img_src ?b = ''/static/uploads/'' @ p \<and> suffix (''/uploads/'' @ p) (img_src ?b)"
    using bare_not_slash [of p] s [of p]
    by (auto simp: bare_filename_def image_url_def pop_def split_single interpolate_def)
  show ?thesis
    using r t1 t2 t3 t4 t5 t6 by blast
qed

theorem image_url_prefix_tiers_witness:
  "image_path catalog_b = Some ''/static/img/b.jpg''
   \<and> map_sum id img_src (render_item catalog_b) = Inr ''/static/img/b.jpg''
   \<and> image_path catalog_a = Some ''static/img/a.jpg''
   \<and> map_sum id img_src (render_item catalog_a) = Inr ''/static/img/a.jpg''
   \<and> image_path disk_path = Some ''/srv/data/img/a.jpg''
   \<and> map_sum id img_src (render_item disk_path) = Inr ''/static/uploads/a.jpg''
   \<and> image_path bare_c = Some ''c.jpg''
   \<and> map_sum id img_src (render_item bare_c) = Inr ''/static/uploads/c.jpg''"
proof -
  have pb: "image_path catalog_b = Some ''/static/img/b.jpg''"
    and pa: "image_path catalog_a = Some ''static/img/a.jpg''"
    and pd: "image_path disk_path = Some ''/srv/data/img/a.jpg''"
    and pc: "image_path bare_c = Some ''c.jpg''"
    by (simp_all add: catalog_a_def catalog_b_def disk_path_def bare_c_def blank_item_def)
  have rb: "rooted_at_static ''/static/img/b.jpg''"
    by (simp add: rooted_at_static_def startsWith_def)
  have ma: "missing_leading_separator ''static/img/a.jpg''"
    by (simp add: missing_leading_separator_def rooted_at_static_def startsWith_def)
  have bc: "bare_filename ''c.jpg'' \<and> \<not> startsWith ''c.jpg'' ''static''"
    by (simp add: bare_filename_def missing_leading_separator_def rooted_at_static_def
          startsWith_def)
  have "map_sum id img_src (render_item catalog_b) = Inr ''/static/img/b.jpg''"
    using image_url_prefix_tiers [OF pb] rb by auto
  moreover have "map_sum id img_src (render_item catalog_a) = Inr ''/static/img/a.jpg''"
    using image_url_prefix_tiers [OF pa] ma by auto
  moreover have "map_sum id img_src (render_item bare_c) = Inr ''/static/uploads/c.jpg''"
    using image_url_prefix_tiers [OF pc] bc by auto
  moreover have "map_sum id img_src (render_item disk_path) = Inr ''/static/uploads/a.jpg''"
    by code_simp
  ultimately show ?thesis
    using pa pb pc pd by simp
qed

text \<open>
  C4 as stated fails: the bare file name \<^verbatim>\<open>static-sofa.jpg\<close> is resolved to
  \<^verbatim>\<open>/static-sofa.jpg\<close>, which does not end with \<^verbatim>\<open>/uploads/static-sofa.jpg\<close>, and the path
  \<^verbatim>\<open>/staticky.png\<close>, which is not rooted at the static namespace, is kept as it is.
\<close>

theorem image_url_bare_filename_counterexample:
  "bare_filename ''static-sofa.jpg''
   \<and> map_sum id img_src (render_item static_sofa) = Inr ''/static-sofa.jpg''
   \<and> \<not> suffix ''/uploads/static-sofa.jpg'' ''/static-sofa.jpg''
   \<and> \<not> rooted_at_static ''/staticky.png''
   \<and> \<not> missing_leading_separator ''/staticky.png''
   \<and> map_sum id img_src (render_item staticky) = Inr ''/staticky.png''
   \<and> \<not> suffix ''/uploads/staticky.png'' ''/staticky.png''"
  by code_simp

subsection \<open>Escaping and the price\<close>

lemma escape_unit_no_markup: "CHR ''<'' \<notin> set (escape_unit c) \<and> CHR ''>'' \<notin> set (escape_unit c)"
  by (simp add: escape_unit_def)

lemma escapeHtml_no_markup: "CHR ''<'' \<notin> set (escapeHtml t) \<and> CHR ''>'' \<notin> set (escapeHtml t)"
  by (induction t) (simp_all add: escapeHtml_def escape_unit_no_markup)

lemma escapeHtml_example: "escapeHtml ''<img onerror=x>'' = ''&lt;img onerror=x&gt;''"
  by (simp add: escapeHtml_def escape_unit_def)

lemma escapeHtml_keeps_quotes: "escapeHtml [CHR 0x27, CHR 0x22] = [CHR 0x27, CHR 0x22]"
  by (simp add: escapeHtml_def escape_unit_def)

text \<open>
  C1 at a record whose name is \<^verbatim>\<open><img onerror=x>\<close>: \<^verbatim>\<open>displayResults\<close> of furniture.js
  places the name in the markup of the block as it is, where part_001 places the escaped
  name.
\<close>

theorem displayResults_unescaped_title:
  \<open>resultsDiv (snd (displayResults [markup_item] s))
     = [Result \<lparr>img_src = ''/static/uploads/a.jpg'', img_alt = ''<img onerror=x>'',
          img_loading = None,
          info_html = ''\<newline>      <h3 class="result-title">'' @ ''<img onerror=x>''
            @ ''</h3>\<newline>      <p class="result-description"></p>\<newline>      <div class="result-price"></div>\<newline>      <div class="result-tags">\<newline>        \<newline>      </div>\<newline>    ''\<rparr>]
   \<and> resultsDiv (snd (displayResults_part001 [markup_item] s))
     = [Result \<lparr>img_src = ''/static/static/uploads/a.jpg'', img_alt = ''<img onerror=x>'',
          img_loading = Some ''lazy'',
          info_html = ''\<newline>      <h3 class="result-title">'' @ ''&lt;img onerror=x&gt;''
            @ ''</h3>\<newline>      <p class="result-description"></p>\<newline>      <div class="result-price">N/A</div>\<newline>      <div class="result-tags">\<newline>        \<newline>      </div>\<newline>    ''\<rparr>]\<close>
  by (simp add: displayResults_def displayResults_part001_def display_with_eq render_item_def
       render_item_part001_def image_url_part001_def interpolate_def
       markup_item_def blank_item_def image_url_def startsWith_def or_else_def
       info_markup_def info_markup_part001_def info_template_def result_price_def
       result_price_part001_def show_price_def tags_of_def escapeHtml_def escape_unit_def)

lemma show_nat_digits: "show_nat 5 = ''5''" "show_nat 7 = ''7''" "show_nat 9 = ''9''"
  by (simp_all add: show_nat.simps)

lemma result_price_examples:
  "show_price (result_price (blank_item\<lparr>final_price := Some (PNum 5),
      special_price := Some (PNum 7), price := Some (PNum 9)\<rparr>)) = ''5''"
  "show_price (result_price (blank_item\<lparr>price := Some (PNum 9)\<rparr>)) = ''9''"
  "show_price (result_price blank_item) = ''''"
  by (simp_all add: blank_item_def result_price_def show_price_def show_int_def show_nat_digits)

lemma result_price_part001_chain:
  "result_price_part001 it =
     (case final_price it of Some v \<Rightarrow> v | None \<Rightarrow>
        (case special_price it of Some v \<Rightarrow> v | None \<Rightarrow>
           (case price it of Some v \<Rightarrow> v | None \<Rightarrow> PStr ''N/A'')))"
  by (simp add: result_price_part001_def)

text \<open>
  C2 at a record with \<^verbatim>\<open>special_price\<close> 7, \<^verbatim>\<open>price\<close> 9 and no \<^verbatim>\<open>final_price\<close>: furniture.js
  shows 9, where part_001 shows 7.
\<close>

theorem result_price_skips_special_price:
  "show_price (result_price special_item) = ''9''
   \<and> show_price (result_price_part001 special_item) = ''7''"
  by (simp add: special_item_def blank_item_def result_price_def result_price_part001_def
       show_price_def show_int_def show_nat_digits)

subsection \<open>Responses that are not a success\<close>

lemma handle_response_http_error:
  assumes "\<not> ok r" and "body_text r = Some t"
  shows "handle_response display (Response r) s
           = (None, alert (Plain (''Error '' @ show_nat (status r) @ '': '' @ t)) s)"
  using assms by (simp add: handle_response_def)

lemma searchText_http_error:
  assumes "trim (textInput s) \<noteq> []" and "\<not> ok r" and "body_text r = Some t"
  shows "alerts (searchText (Response r) s)
           = alerts s @ [Plain (''Error '' @ show_nat (status r) @ '': '' @ t)]
         \<and> resultsDiv (searchText (Response r) s) = resultsDiv s
         \<and> resultsCount (searchText (Response r) s) = resultsCount s"
  using assms
  by (simp add: searchText_def Let_def handle_response_http_error alert_def fetch_def)

lemma searchImage_http_error:
  assumes "imageQuery s \<noteq> []" and "\<not> ok r" and "body_text r = Some t"
  shows "alerts (searchImage (Response r) s)
           = alerts s @ [Plain (''Error '' @ show_nat (status r) @ '': '' @ t)]
         \<and> resultsDiv (searchImage (Response r) s) = resultsDiv s
         \<and> resultsCount (searchImage (Response r) s) = resultsCount s"
  using assms
  by (cases "imageQuery s")
     (simp_all add: searchImage_def Let_def handle_response_http_error alert_def fetch_def)

lemma searchText_part001_http_error:
  assumes "trim (textInput s) \<noteq> []" and "\<not> ok r" and "body_text r = Some t"
  shows "alerts (searchText_part001 (Response r) s)
           = alerts s @ [Plain (''Error '' @ show_nat (status r) @ '': '' @ t)]
         \<and> resultsDiv (searchText_part001 (Response r) s) = resultsDiv s
         \<and> resultsCount (searchText_part001 (Response r) s) = resultsCount s"
  using assms
  by (simp add: searchText_part001_def Let_def handle_response_http_error alert_def fetch_def)

lemma searchImage_part001_http_error:
  assumes "imageQuery s \<noteq> []" and "\<not> ok r" and "body_text r = Some t"
  shows "alerts (searchImage_part001 (Response r) s)
           = alerts s @ [Plain (''Error '' @ show_nat (status r) @ '': '' @ t)]
         \<and> resultsDiv (searchImage_part001 (Response r) s) = resultsDiv s
         \<and> resultsCount (searchImage_part001 (Response r) s) = resultsCount s"
  using assms
  by (cases "imageQuery s")
     (simp_all add: searchImage_part001_def Let_def handle_response_http_error alert_def fetch_def)

lemma searchText_part000_http_error:
  assumes "trim (textInput s) \<noteq> []" and "\<not> ok r" and "body_text r = Some t"
  shows "alerts (searchText_part000 (Response r) s)
           = alerts s @ [Plain (''Error: '' @ show_nat (status r) @ '' - '' @ t)]
         \<and> resultsDiv (searchText_part000 (Response r) s) = resultsDiv s
         \<and> resultsCount (searchText_part000 (Response r) s) = resultsCount s"
  using assms
  by (simp add: searchText_part000_def Let_def handle_text_part000_def alert_def fetch_def)

text \<open>
  C5 at a response with status 400 and a JSON body without \<^verbatim>\<open>results\<close>, on a page that
  shows one result: \<^verbatim>\<open>searchImage\<close> of part_000 empties the results element and reports
  a \<^verbatim>\<open>TypeError\<close>, where \<^verbatim>\<open>searchImage\<close> of furniture.js leaves the results and reports
  the status and the body.
\<close>

theorem searchImage_part000_ignores_status:
  \<open>\<not> ok bad_request
   \<and> resultsDiv shown_page \<noteq> []
   \<and> resultsDiv (searchImage_part000 (Response bad_request) shown_page) = []
   \<and> alerts (searchImage_part000 (Response bad_request) shown_page)
       = [WithError ''Error fetching image results: '' TypeError]
   \<and> resultsDiv (searchImage (Response bad_request) shown_page) = resultsDiv shown_page
   \<and> alerts (searchImage (Response bad_request) shown_page)
       = [Plain ''Error 400: {"detail":"Invalid image"}'']\<close>
  by code_simp

subsection \<open>Suggestions\<close>

lemma suggestion_html_not_Nil: "suggestion_html d \<noteq> []"
  by (simp add: suggestion_html_def)

text \<open>
  C8, as the code has it: when \<^verbatim>\<open>fetchSuggestion\<close> has sent the trimmed, non-empty query
  \<open>q\<close> and the request settles, the suggestion element shows the link for \<open>d\<close> if the body
  of the response, whatever its status, is JSON whose \<^verbatim>\<open>did_you_mean\<close> is a non-empty \<open>d\<close>
  that differs from \<open>q\<close> when both are put in lower case; in every other case (equal, empty
  or absent suggestion, a body that is not JSON, a rejected request) the element is
  emptied; and no alert is ever raised.
\<close>

theorem fetchSuggestion_shows_iff:
  assumes "trim (textInput s) = q" and "q \<noteq> []"
  shows "(\<forall>d. reply_suggestion reply = Some d \<and> d \<noteq> [] \<and> toLowerCase d \<noteq> toLowerCase q
            \<longrightarrow> suggestionDiv (fetchSuggestion reply s) = suggestion_html d)
       \<and> ((\<nexists>d. reply_suggestion reply = Some d \<and> d \<noteq> [] \<and> toLowerCase d \<noteq> toLowerCase q)
            \<longrightarrow> suggestionDiv (fetchSuggestion reply s) = [])
       \<and> (suggestionDiv (fetchSuggestion reply s) \<noteq> [] \<longleftrightarrow>
            (\<exists>d. reply_suggestion reply = Some d \<and> d \<noteq> [] \<and> toLowerCase d \<noteq> toLowerCase q))
       \<and> alerts (fetchSuggestion reply s) = alerts s"
  using assms
  by (auto simp: suggestion_html_not_Nil fetchSuggestion_def fetchSuggestion_begin_def fetchSuggestion_end_def
        reply_suggestion_def suggestion_failed_def console_error_def fetch_def Let_def
      split: fetch_result.splits json.splits option.splits)

theorem fetchSuggestion_shows_iff_witness:
  "trim (textInput (blank_page\<lparr>textInput := '' Sofs ''\<rparr>)) = ''Sofs'' \<and> ''Sofs'' \<noteq> []
   \<and> suggestionDiv (fetchSuggestion (Response error_with_suggestion)
        (blank_page\<lparr>textInput := '' Sofs ''\<rparr>)) = suggestion_html ''sofa''
   \<and> suggestionDiv (fetchSuggestion Rejected (blank_page\<lparr>textInput := '' Sofs ''\<rparr>)) = []
   \<and> alerts (fetchSuggestion Rejected (blank_page\<lparr>textInput := '' Sofs ''\<rparr>)) = []"
proof -
  have t: "trim (textInput (blank_page\<lparr>textInput := '' Sofs ''\<rparr>)) = ''Sofs''"
    by code_simp
  have n: "''Sofs'' \<noteq> []" by simp
  have r1: "reply_suggestion (Response error_with_suggestion) = Some ''sofa''"
    by code_simp
  have r2: "reply_suggestion Rejected = None"
    by (simp add: reply_suggestion_def)
  have l: "toLowerCase ''sofa'' \<noteq> toLowerCase ''Sofs''" by code_simp
  have a: "alerts blank_page = []" by (simp add: blank_page_def)
  show ?thesis
    using fetchSuggestion_shows_iff [OF t n, of "Response error_with_suggestion"]
      fetchSuggestion_shows_iff [OF t n, of Rejected] t r1 r2 l a
    by simp
qed

text \<open>
  C8 as stated fails: a response with status 500 whose body carries a suggestion is shown.
\<close>

theorem fetchSuggestion_status_counterexample:
  "\<not> ok error_with_suggestion
   \<and> suggestionDiv (fetchSuggestion (Response error_with_suggestion)
        (blank_page\<lparr>textInput := ''sofs''\<rparr>)) \<noteq> []"
  by code_simp

subsection \<open>The result limit\<close>

lemma split_append: "c \<notin> set a \<Longrightarrow> split c (a @ c # b) = a # split c b"
  by (induction a) auto

lemma hex_digit_in: "hex_digit n \<in> set ''0123456789ABCDEF''"
  unfolding hex_digit_def by (rule nth_mem) simp

lemma hex_digit_not_amp: "hex_digit n \<noteq> CHR ''&''" "CHR ''&'' \<noteq> hex_digit n"
  using hex_digit_in [of n] by auto

lemma percent_no_amp: "CHR ''&'' \<notin> set (percent b)"
  by (simp add: percent_def hex_digit_not_amp)

lemma encode_unit_no_amp: "CHR ''&'' \<notin> set (encode_unit c)"
proof (cases "unreserved c")
  case True
  then have "c \<noteq> CHR ''&''"
    by (auto simp: unreserved_def)
  then show ?thesis
    using True by (simp add: encode_unit_def)
next
  case False
  then show ?thesis
    by (simp add: encode_unit_def Let_def percent_no_amp)
qed

lemma encodeURIComponent_no_amp: "CHR ''&'' \<notin> set (encodeURIComponent q)"
  by (induction q) (simp_all add: encodeURIComponent_def encode_unit_no_amp)

lemma limit_of_text_request: "limit_of (text_request q) = Some ''10''"
proof -
  have "split CHR ''&'' ((''q='' @ encodeURIComponent q) @ CHR ''&'' # ''k=10'')
          = (''q='' @ encodeURIComponent q) # split CHR ''&'' ''k=10''"
    by (rule split_append) (simp add: encodeURIComponent_no_amp)
  then have "split CHR ''&'' (''q='' @ encodeURIComponent q @ ''&k=10'')
          = [''q='' @ encodeURIComponent q, ''k=10'']"
    by simp
  then show ?thesis
    by (simp add: limit_of_def query_params_def text_request_def)
qed

lemma limit_of_image_request: "limit_of (image_request f) = Some ''10''"
  by (simp add: limit_of_def query_params_def image_request_def)

lemma requests_display_with [simp]: "requests (snd (display_with ph f its s)) = requests s"
  by (simp add: display_with_eq)

lemma requests_displayResults_part000 [simp]:
  "requests (snd (displayResults_part000 arg s)) = requests s"
  by (simp add: displayResults_part000_def split: option.splits)

lemma requests_handle_response:
  assumes "\<And>its s. requests (snd (display its s)) = requests s"
  shows "requests (snd (handle_response display reply s)) = requests s"
  using assms
  by (simp add: handle_response_def alert_def split: fetch_result.splits option.splits json.splits)

lemma requests_handle_furniture [simp]:
  "requests (snd (handle_response displayResults reply s)) = requests s"
  by (rule requests_handle_response) (simp add: displayResults_def)

lemma requests_handle_part001 [simp]:
  "requests (snd (handle_response displayResults_part001 reply s)) = requests s"
  by (rule requests_handle_response) (simp add: displayResults_part001_def)

lemma requests_handle_text_part000 [simp]:
  "requests (snd (handle_text_part000 reply s)) = requests s"
  by (simp add: handle_text_part000_def alert_def split: fetch_result.splits option.splits json.splits)

lemma requests_handle_image_part000 [simp]:
  "requests (snd (handle_image_part000 reply s)) = requests s"
  by (simp add: handle_image_part000_def split: fetch_result.splits json.splits)

lemma requests_catch:
  "requests (case p of (None, s3) \<Rightarrow> s3 | (Some e, s3) \<Rightarrow> h e s3)
     = (case fst p of None \<Rightarrow> requests (snd p) | Some e \<Rightarrow> requests (h e (snd p)))"
  by (cases p) (simp split: option.splits)

lemma text_limit_10:
  "requests s' = (if b then requests s else requests s @ [text_request q])
     \<Longrightarrow> requests_limit_10 s s'"
  by (simp add: requests_limit_10_def new_requests_def limit_of_text_request)

lemma image_limit_10:
  "requests s' = (case fs of [] \<Rightarrow> requests s | f # _ \<Rightarrow> requests s @ [image_request f])
     \<Longrightarrow> requests_limit_10 s s'"
  by (simp add: requests_limit_10_def new_requests_def limit_of_image_request split: list.splits)

lemma searchText_requests:
  "requests (searchText reply s)
     = (if trim (textInput s) = [] then requests s
        else requests s @ [text_request (trim (textInput s))])"
  by (simp add: searchText_def Let_def requests_catch alert_def fetch_def split: option.splits)

lemma searchImage_requests:
  "requests (searchImage reply s)
     = (case imageQuery s of [] \<Rightarrow> requests s | f # _ \<Rightarrow> requests s @ [image_request f])"
  by (simp add: searchImage_def Let_def requests_catch alert_def fetch_def
      split: option.splits list.splits)

lemma searchText_part001_requests:
  "requests (searchText_part001 reply s)
     = (if trim (textInput s) = [] then requests s
        else requests s @ [text_request (trim (textInput s))])"
  by (simp add: searchText_part001_def Let_def requests_catch alert_def console_error_def fetch_def
      split: option.splits)

lemma searchImage_part001_requests:
  "requests (searchImage_part001 reply s)
     = (case imageQuery s of [] \<Rightarrow> requests s | f # _ \<Rightarrow> requests s @ [image_request f])"
  by (simp add: searchImage_part001_def Let_def requests_catch alert_def console_error_def fetch_def
      split: option.splits list.splits)

lemma searchText_part000_requests:
  "requests (searchText_part000 reply s)
     = (if trim (textInput s) = [] then requests s
        else requests s @ [text_request (trim (textInput s))])"
  by (simp add: searchText_part000_def Let_def requests_catch alert_def fetch_def split: option.splits)

lemma searchImage_part000_requests:
  "requests (searchImage_part000 reply s)
     = (case imageQuery s of [] \<Rightarrow> requests s | f # _ \<Rightarrow> requests s @ [image_request f])"
  by (simp add: searchImage_part000_def Let_def requests_catch alert_def fetch_def
      split: option.splits list.splits)

text \<open>
  C10: in each of the three revisions \<^verbatim>\<open>searchText\<close> and \<^verbatim>\<open>searchImage\<close> issue at most one
  request per call, whatever the reply, and the request carries the parameter \<^verbatim>\<open>k\<close> with
  the value \<^verbatim>\<open>10\<close>.
\<close>

theorem searches_request_limit_10:
  "requests_limit_10 s (searchText reply s) \<and> requests_limit_10 s (searchImage reply s)
   \<and> requests_limit_10 s (searchText_part000 reply s)
   \<and> requests_limit_10 s (searchImage_part000 reply s)
   \<and> requests_limit_10 s (searchText_part001 reply s)
   \<and> requests_limit_10 s (searchImage_part001 reply s)"
proof (intro conjI)
  show "requests_limit_10 s (searchText reply s)"
    by (rule text_limit_10 [OF searchText_requests])
  show "requests_limit_10 s (searchImage reply s)"
    by (rule image_limit_10 [OF searchImage_requests])
  show "requests_limit_10 s (searchText_part000 reply s)"
    by (rule text_limit_10 [OF searchText_part000_requests])
  show "requests_limit_10 s (searchImage_part000 reply s)"
    by (rule image_limit_10 [OF searchImage_part000_requests])
  show "requests_limit_10 s (searchText_part001 reply s)"
    by (rule text_limit_10 [OF searchText_part001_requests])
  show "requests_limit_10 s (searchImage_part001 reply s)"
    by (rule image_limit_10 [OF searchImage_part001_requests])
qed

theorem searches_request_limit_10_witness:
  "requests_limit_10 (blank_page\<lparr>textInput := ''sofa & bed''\<rparr>)
     (searchText Rejected (blank_page\<lparr>textInput := ''sofa & bed''\<rparr>))
   \<and> new_requests (blank_page\<lparr>textInput := ''sofa & bed''\<rparr>)
       (searchText Rejected (blank_page\<lparr>textInput := ''sofa & bed''\<rparr>))
     = [\<lparr>meth = ''GET'', url = ''/search/text?q=sofa%20%26%20bed&k=10'', form = []\<rparr>]
   \<and> new_requests shown_page (searchImage Rejected shown_page)
     = [\<lparr>meth = ''POST'', url = ''/search/image?k=10'', form = [(''image'', ''chair.jpg'')]\<rparr>]"
proof -
  have "new_requests (blank_page\<lparr>textInput := ''sofa & bed''\<rparr>)
       (searchText Rejected (blank_page\<lparr>textInput := ''sofa & bed''\<rparr>))
     = [\<lparr>meth = ''GET'', url = ''/search/text?q=sofa%20%26%20bed&k=10'', form = []\<rparr>]"
    by code_simp
  moreover have "new_requests shown_page (searchImage Rejected shown_page)
     = [\<lparr>meth = ''POST'', url = ''/search/image?k=10'', form = [(''image'', ''chair.jpg'')]\<rparr>]"
    by code_simp
  ultimately show ?thesis
    using searches_request_limit_10 [of "blank_page\<lparr>textInput := ''sofa & bed''\<rparr>" Rejected]
    by simp
qed

subsection \<open>Debouncing\<close>
















text \<open>
  Two changes 300 ms apart are not a burst: each gets its request. A burst that ends on
  white space gets none.
\<close>

lemma slow_typing_example:
  "map url (requests (run_until 700 (run_events [Input 0 ''s'', Input 300 ''so''] blank_page)))
     = [''/suggest?q=s'', ''/suggest?q=so'']"
  by code_simp

lemma blank_input_example:
  "requests (run_until 700 (run_events [Input 0 ''s'', Input 100 ''  ''] blank_page)) = []"
  by code_simp

end
